theory Spec2Isabelle
  imports Complex_Main "HOL-Library.Multiset" "HOL-Library.Sublist" "HOL-Library.AList"
begin

section \<open>Wire payloads and the Lavalink node (src/src/Lavalink.ts)\<close>

text \<open>
  Guild, channel, host and track identifiers are strings. A field that the source lets be
  \<^verbatim>\<open>null\<close> or \<^verbatim>\<open>undefined\<close> is an option. JavaScript numbers are modelled by exact
  integers (counters, milliseconds) and exact reals (load statistics).
\<close>

type_synonym nid = nat
type_synonym pid = nat
type_synonym prom = nat

text \<open>The options object merged into a play payload, as its list of fields.\<close>

type_synonym play_options = "(string \<times> int) list"

text \<open>The JSON payloads a Player hands to \<^verbatim>\<open>node.send\<close>, one constructor per opcode.\<close>

datatype payload =
    VoiceUpdateOp string string "string \<times> string \<times> string"
  | PlayOp string "string option" "play_options option"
  | StopOp string
  | PauseOp string bool
  | SeekOp string int
  | VolumeOp string int
  | DestroyOp string

datatype node_event = NodeReady | NodeDisconnect

record lavalink =
  host :: string
  region :: "string option"
  connected :: bool
  draining :: bool
  retries :: int
  reconnectTimeout :: int
  reconnectInterval :: "int option"
  cpu :: "(real \<times> real) option"
  ws :: bool
  wire :: "payload list"
  node_emitted :: "node_event list"

text \<open>
  \<^verbatim>\<open>reconnectInterval\<close> holds the delay of the timer armed last, \<open>None\<close> when the field is
  \<^verbatim>\<open>null\<close>; \<^verbatim>\<open>ws\<close> says whether the socket object is present; \<^verbatim>\<open>wire\<close> lists what has been
  passed to \<^verbatim>\<open>ws.send\<close>, oldest first; \<^verbatim>\<open>cpu\<close> is \<^verbatim>\<open>stats.cpu\<close> as (systemLoad, cores).
\<close>

record lavalink_options =
  opt_host :: string
  opt_region :: "string option"
  opt_timeout :: "int option"

definition connect_node :: "lavalink \<Rightarrow> lavalink" where
  "connect_node n = n\<lparr>ws := True\<rparr>"

text \<open>The constructor: \<^verbatim>\<open>options.timeout || 5000\<close> takes 5000 for a missing or zero timeout.\<close>

definition Lavalink_new :: "lavalink_options \<Rightarrow> lavalink" where
  "Lavalink_new options = connect_node
     \<lparr>host = opt_host options,
      region = (case opt_region options of None \<Rightarrow> None
                | Some r \<Rightarrow> if r = [] then None else Some r),
      connected = False, draining = False, retries = 0,
      reconnectTimeout = (case opt_timeout options of None \<Rightarrow> 5000
                | Some t \<Rightarrow> if t = 0 then 5000 else t),
      reconnectInterval = None, cpu = None, ws = False, wire = [], node_emitted = []\<rparr>"

definition retryInterval :: "lavalink \<Rightarrow> int" where
  "retryInterval n = (let r = min (retries n - 1) 5 in (r + 5) ^ 2 * 1000)"

text \<open>\<^verbatim>\<open>reconnect\<close>: arm the next timer with the interval computed from the counter as it
  stands, then count the attempt, then redial.\<close>

definition reconnect :: "lavalink \<Rightarrow> lavalink" where
  "reconnect n =
     (let interval = retryInterval n;
          n1 = n\<lparr>reconnectInterval := Some interval\<rparr>;
          n2 = n1\<lparr>retries := retries n1 + 1\<rparr>
      in connect_node n2)"

definition ready_node :: "lavalink \<Rightarrow> lavalink" where
  "ready_node n =
     (let n1 = (if reconnectInterval n \<noteq> None then n\<lparr>reconnectInterval := None\<rparr> else n)
      in n1\<lparr>connected := True, retries := 0, node_emitted := node_emitted n1 @ [NodeReady]\<rparr>)"

definition disconnected :: "lavalink \<Rightarrow> lavalink" where
  "disconnected n =
     (let n1 = n\<lparr>connected := False\<rparr>;
          n2 = (if reconnectInterval n1 = None
                then n1\<lparr>node_emitted := node_emitted n1 @ [NodeDisconnect]\<rparr> else n1);
          n3 = n2\<lparr>ws := False\<rparr>
      in if reconnectInterval n3 = None
         then n3\<lparr>reconnectInterval := Some (reconnectTimeout n3)\<rparr> else n3)"

text \<open>\<^verbatim>\<open>send\<close>: dropped without a socket; every payload of the model serialises.\<close>

definition send :: "lavalink \<Rightarrow> payload \<Rightarrow> lavalink" where
  "send n data = (if \<not> ws n then n else n\<lparr>wire := wire n @ [data]\<rparr>)"

text \<open>A connected node has its socket: \<^verbatim>\<open>connected\<close> is set by the socket's \<^verbatim>\<open>open\<close> event
  and cleared before the socket is dropped.\<close>

definition socket_ok :: "lavalink \<Rightarrow> bool" where
  "socket_ok n \<longleftrightarrow> ws n \<or> \<not> connected n"

text \<open>
  Consecutive failures: the armed timer fires and calls \<^verbatim>\<open>reconnect\<close>, the new socket
  closes again and its close handler runs \<^verbatim>\<open>disconnected\<close>. \<open>after_failures n k\<close> is the node
  after the first disconnect of \<open>n\<close> and \<open>k\<close> failed redials; \<open>wait_before n k\<close> is the delay of
  the timer that precedes redial number \<open>k\<close> (counted from 1).
\<close>

fun after_failures :: "lavalink \<Rightarrow> nat \<Rightarrow> lavalink" where
  "after_failures n 0 = disconnected n"
| "after_failures n (Suc k) = disconnected (reconnect (after_failures n k))"

definition wait_before :: "lavalink \<Rightarrow> nat \<Rightarrow> int option" where
  "wait_before n k = (if k = 0 then None else reconnectInterval (after_failures n (k - 1)))"

definition node0 :: lavalink where
  "node0 = Lavalink_new \<lparr>opt_host = ''h'', opt_region = None, opt_timeout = None\<rparr>"

section \<open>Sessions and the coordinator's state (src/src/Player.ts, src/src/PlayerManager.ts)\<close>

text \<open>
  Players and nodes are objects shared by reference (a Player is held by the player map, by
  a pending join and by closures; a node by the node map and by its players), so the state
  has one store for each, indexed by references. The event loop is part of the state: the
  \<^verbatim>\<open>process.nextTick\<close> queue, the promise job queue and the armed timers.
\<close>

text \<open>The values a join promise is rejected with, and the TypeError of a property read
  on \<^verbatim>\<open>undefined\<close>.\<close>

datatype error =
    NoAvailableVoiceNodes | VoiceConnectionTimeout | InvalidChannelID | DisconnectedError
  | TypeError

datatype event_name = EvConnect | EvReady | EvDisconnect | EvEnd | EvError | EvWarn | EvReconnect

text \<open>
  Listeners: \<open>User k\<close> is a function registered by the library's caller (opaque, its calls are
  logged); \<open>RestoreEnd ls\<close> is the closure of \<^verbatim>\<open>switchNode\<close> that re-attaches the stashed end
  listeners \<open>ls\<close>; \<open>ReadyHandler h g\<close> and \<open>DisconnectHandler h g\<close> are the two closures made by
  call number \<open>h\<close> of \<^verbatim>\<open>voiceServerUpdate\<close> for guild \<open>g\<close>. A registration pairs a listener with
  its \<^verbatim>\<open>once\<close> flag.
\<close>

datatype listener =
    User nat
  | RestoreEnd "listener list"
  | ReadyHandler nat string
  | DisconnectHandler nat string

record shard =
  shard_id :: "int option"
  sendWS :: bool

record join_options =
  jo_node :: "string option"
  jo_region :: "string option"

text \<open>
  The Player fields that the modelled operations read or write (\<^verbatim>\<open>manager\<close> is the one
  coordinator of the state; \<^verbatim>\<open>timestamp\<close>, read only by \<^verbatim>\<open>getTimestamp\<close>, is left out).
  \<^verbatim>\<open>id\<close> is \<open>id_p\<close>, \<^verbatim>\<open>state.position\<close> is \<open>position\<close>; an absent channel id is the empty
  string.
\<close>

record player =
  id_p :: string
  node :: nid
  hostname :: "string option"
  guildId :: string
  channelId :: string
  options_p :: "join_options option"
  ready :: bool
  playing :: bool
  paused :: bool
  shard :: shard
  position :: "int option"
  track :: "string option"
  lastTrack :: "string option"
  playOptions :: "play_options option"
  sendQueue :: "payload list"
  listeners :: "event_name \<Rightarrow> (listener \<times> bool) list"

text \<open>An entry of \<^verbatim>\<open>pendingGuilds\<close>; \<^verbatim>\<open>res\<close> and \<^verbatim>\<open>rej\<close> are the two ends of one promise.\<close>

record pendingGuild =
  pg_channelId :: string
  pg_hostname :: "string option"
  pg_options :: join_options
  pg_player :: "pid option"
  pg_node :: nid
  pg_promise :: prom
  pg_timeout :: "nat option"

datatype settlement = Resolved pid | Rejected error

datatype timer_action = JoinTimeout string prom | CheckFailoverQueue

text \<open>Callbacks passed to \<^verbatim>\<open>process.nextTick\<close>.\<close>

datatype task =
    CheckEventQueue pid
  | EmitReady pid
  | Rejoin pid string string "string option" bool int

text \<open>Promise jobs: the rest of \<^verbatim>\<open>join\<close> after its \<^verbatim>\<open>await\<close>, and the \<^verbatim>\<open>then\<close>/\<^verbatim>\<open>catch\<close> callbacks
  that \<^verbatim>\<open>switchNode\<close> attaches to a join promise.\<close>

datatype job =
    JoinCont string string join_options "pid option" "nid option" prom
  | React prom

datatype reaction = Migrated pid string "string option" bool int

text \<open>\<open>SwitchNode p leave\<close> is \<^verbatim>\<open>this.switchNode.bind(this, player, leave)\<close>.\<close>

datatype thunk = SwitchNode pid bool

record voice_state =
  vs_guild_id :: "string option"
  vs_channel_id :: "string option"
  vs_self_mute :: bool
  vs_self_deaf :: bool

record voice_server_update =
  guild_id :: string
  endpoint :: string
  token :: string
  session_id :: string
  data_shard :: shard

datatype phase = TickPhase | MicrotaskPhase

record world =
  nodeObjs :: "nid \<Rightarrow> lavalink"
  playerObjs :: "pid \<Rightarrow> player"
  nextNode :: nid
  nextPlayer :: pid
  nodes :: "(string \<times> nid) list"
  players :: "(string \<times> pid) list"
  pendingGuilds :: "string \<rightharpoonup> pendingGuild"
  failoverQueue :: "thunk list"
  failoverRate :: nat
  failoverLimit :: nat
  regions :: "(string \<times> string list) list"
  defaultRegion :: "string option"
  reconnectThreshold :: "int option"
  nextTick :: "task list"
  microtasks :: "job list"
  phase :: phase
  timers :: "(nat \<times> nat \<times> timer_action) list"
  nextTimer :: nat
  promises :: "prom \<Rightarrow> settlement option"
  calls :: "(prom \<times> settlement) list"
  reactions :: "prom \<rightharpoonup> reaction"
  nextPromise :: prom
  nextHandler :: nat
  gateway :: "voice_state list"
  emitted :: "(pid \<times> event_name) list"
  heard :: "(pid \<times> event_name \<times> nat) list"
  uncaught :: "error list"

text \<open>
  \<^verbatim>\<open>nodes\<close> and \<^verbatim>\<open>players\<close> are JavaScript Maps, kept in insertion order; \<^verbatim>\<open>timers\<close> lists
  (handle, delay in ms, callback); \<^verbatim>\<open>promises\<close> is the state of each join promise and
  \<^verbatim>\<open>calls\<close> logs every call of a \<^verbatim>\<open>res\<close> or \<^verbatim>\<open>rej\<close> function; \<^verbatim>\<open>gateway\<close> lists the voice state
  updates handed to \<^verbatim>\<open>shard.sendWS\<close>; \<^verbatim>\<open>emitted\<close> logs every \<^verbatim>\<open>emit\<close> on a Player, \<^verbatim>\<open>heard\<close>
  every call of a caller's listener; \<^verbatim>\<open>uncaught\<close> logs exceptions that reach the event loop.
\<close>

definition upd_node :: "world \<Rightarrow> nid \<Rightarrow> (lavalink \<Rightarrow> lavalink) \<Rightarrow> world" where
  "upd_node w i f = w\<lparr>nodeObjs := (nodeObjs w)(i := f (nodeObjs w i))\<rparr>"

definition upd_player :: "world \<Rightarrow> pid \<Rightarrow> (player \<Rightarrow> player) \<Rightarrow> world" where
  "upd_player w p f = w\<lparr>playerObjs := (playerObjs w)(p := f (playerObjs w p))\<rparr>"

definition node_send :: "world \<Rightarrow> nid \<Rightarrow> payload \<Rightarrow> world" where
  "node_send w i data = upd_node w i (\<lambda>n. send n data)"

subsection \<open>The session's command queue\<close>

definition sendEvent :: "world \<Rightarrow> pid \<Rightarrow> payload \<Rightarrow> world" where
  "sendEvent w p data =
     (let w1 = node_send w (node (playerObjs w p)) data
      in w1\<lparr>nextTick := nextTick w1 @ [CheckEventQueue p]\<rparr>)"

definition checkEventQueue :: "world \<Rightarrow> pid \<Rightarrow> world" where
  "checkEventQueue w p =
     (if length (sendQueue (playerObjs w p)) > 0
      then (let event = take 1 (sendQueue (playerObjs w p));
                w1 = upd_player w p (\<lambda>pl. pl\<lparr>sendQueue := drop 1 (sendQueue pl)\<rparr>)
            in sendEvent w1 p (hd event))
      else w)"

definition queueEvent :: "world \<Rightarrow> pid \<Rightarrow> payload \<Rightarrow> world" where
  "queueEvent w p data =
     (if length (sendQueue (playerObjs w p)) > 0
      then upd_player w p (\<lambda>pl. pl\<lparr>sendQueue := sendQueue pl @ [data]\<rparr>)
      else sendEvent w p data)"

subsection \<open>Pause, seek, volume, stop\<close>

definition setPause :: "world \<Rightarrow> pid \<Rightarrow> bool \<Rightarrow> world" where
  "setPause w p pause =
     (let pl = playerObjs w p;
          w1 = node_send w (node pl) (PauseOp (guildId pl) pause)
      in upd_player w1 p (\<lambda>pl. pl\<lparr>paused := pause, playing := \<not> pause\<rparr>))"

definition pause :: "world \<Rightarrow> pid \<Rightarrow> world" where
  "pause w p = (if playing (playerObjs w p) then setPause w p True else w)"

definition resume :: "world \<Rightarrow> pid \<Rightarrow> world" where
  "resume w p =
     (if \<not> playing (playerObjs w p) \<and> paused (playerObjs w p) then setPause w p False else w)"

definition seek :: "world \<Rightarrow> pid \<Rightarrow> int \<Rightarrow> world" where
  "seek w p pos = (let pl = playerObjs w p in node_send w (node pl) (SeekOp (guildId pl) pos))"

definition setVolume :: "world \<Rightarrow> pid \<Rightarrow> int \<Rightarrow> world" where
  "setVolume w p volume =
     (let pl = playerObjs w p in node_send w (node pl) (VolumeOp (guildId pl) volume))"

definition stop :: "world \<Rightarrow> pid \<Rightarrow> world" where
  "stop w p =
     (let w1 = queueEvent w p (StopOp (guildId (playerObjs w p)))
      in upd_player w1 p (\<lambda>pl. pl\<lparr>playing := False, lastTrack := track pl, track := None\<rparr>))"

text \<open>\<^verbatim>\<open>_disconnect\<close>.\<close>

definition private_disconnect :: "world \<Rightarrow> pid \<Rightarrow> world" where
  "private_disconnect w p =
     (let w1 = upd_player w p (\<lambda>pl. pl\<lparr>playing := False\<rparr>);
          w2 = (if paused (playerObjs w1 p) then resume w1 p else w1);
          w3 = queueEvent w2 p (DestroyOp (guildId (playerObjs w2 p)))
      in stop w3 p)"

text \<open>\<^verbatim>\<open>updateVoiceState\<close>: \<^verbatim>\<open>channelId || null\<close> and \<^verbatim>\<open>!!selfMute\<close> written out.\<close>

definition updateVoiceState ::
  "world \<Rightarrow> pid \<Rightarrow> string option \<Rightarrow> bool option \<Rightarrow> bool option \<Rightarrow> world" where
  "updateVoiceState w p channel selfMute selfDeaf =
     (let pl = playerObjs w p
      in if sendWS (shard pl)
         then w\<lparr>gateway := gateway w @
                [\<lparr>vs_guild_id = (if id_p pl = ''call'' then None else Some (id_p pl)),
                  vs_channel_id = (case channel of None \<Rightarrow> None
                                   | Some c \<Rightarrow> if c = [] then None else Some c),
                  vs_self_mute = (selfMute = Some True),
                  vs_self_deaf = (selfDeaf = Some True)\<rparr>]\<rparr>
         else w)"

definition switchChannel :: "world \<Rightarrow> pid \<Rightarrow> string \<Rightarrow> bool \<Rightarrow> world" where
  "switchChannel w p channel reactive =
     (if channelId (playerObjs w p) = channel then w
      else (let w1 = upd_player w p (\<lambda>pl. pl\<lparr>channelId := channel\<rparr>)
            in if reactive then updateVoiceState w1 p (Some channel) None None else w1))"

subsection \<open>Event listeners\<close>

definition on :: "world \<Rightarrow> pid \<Rightarrow> event_name \<Rightarrow> listener \<Rightarrow> world" where
  "on w p ev l =
     upd_player w p (\<lambda>pl. pl\<lparr>listeners := (listeners pl)(ev := listeners pl ev @ [(l, False)])\<rparr>)"

definition once :: "world \<Rightarrow> pid \<Rightarrow> event_name \<Rightarrow> listener \<Rightarrow> world" where
  "once w p ev l =
     upd_player w p (\<lambda>pl. pl\<lparr>listeners := (listeners pl)(ev := listeners pl ev @ [(l, True)])\<rparr>)"

text \<open>\<^verbatim>\<open>removeListener\<close> removes at most one registration of the listener, the one added last.\<close>

fun remove_first :: "listener \<Rightarrow> (listener \<times> bool) list \<Rightarrow> (listener \<times> bool) list" where
  "remove_first l [] = []"
| "remove_first l (r # rs) = (if fst r = l then rs else r # remove_first l rs)"

definition remove_last :: "listener \<Rightarrow> (listener \<times> bool) list \<Rightarrow> (listener \<times> bool) list" where
  "remove_last l rs = rev (remove_first l (rev rs))"

definition removeListener :: "world \<Rightarrow> pid \<Rightarrow> event_name \<Rightarrow> listener \<Rightarrow> world" where
  "removeListener w p ev l =
     upd_player w p (\<lambda>pl. pl\<lparr>listeners := (listeners pl)(ev := remove_last l (listeners pl ev))\<rparr>)"

text \<open>A \<^verbatim>\<open>once\<close> registration takes itself off the list when it is called (the first
  registration of that listener with the \<^verbatim>\<open>once\<close> flag: in an emit, the earliest one not yet
  called).\<close>

definition remove_once :: "world \<Rightarrow> pid \<Rightarrow> event_name \<Rightarrow> listener \<Rightarrow> world" where
  "remove_once w p ev l =
     upd_player w p (\<lambda>pl. pl\<lparr>listeners := (listeners pl)(ev := remove1 (l, True) (listeners pl ev))\<rparr>)"

subsection \<open>Join promises\<close>

text \<open>
  A promise takes the first settlement only; settling it queues the job of the callbacks
  attached to it. \<open>res\<close> and \<open>rej\<close> are the functions stored in a pending entry. The promise
  that the async function \<^verbatim>\<open>join\<close> returns and the one it creates inside are one promise
  here, and the \<^verbatim>\<open>then\<close> and \<^verbatim>\<open>catch\<close> callbacks run in one job: the extra turns of the job
  queue that adoption and chaining take are left out (they only delay these jobs).
\<close>

definition fulfil :: "world \<Rightarrow> prom \<Rightarrow> settlement \<Rightarrow> world" where
  "fulfil w pr s =
     (if promises w pr \<noteq> None then w
      else (let w1 = w\<lparr>promises := (promises w)(pr := Some s)\<rparr>
            in if reactions w1 pr \<noteq> None
               then w1\<lparr>microtasks := microtasks w1 @ [React pr]\<rparr> else w1))"

definition res :: "world \<Rightarrow> prom \<Rightarrow> pid \<Rightarrow> world" where
  "res w pr p = fulfil (w\<lparr>calls := calls w @ [(pr, Resolved p)]\<rparr>) pr (Resolved p)"

definition rej :: "world \<Rightarrow> prom \<Rightarrow> error \<Rightarrow> world" where
  "rej w pr e = fulfil (w\<lparr>calls := calls w @ [(pr, Rejected e)]\<rparr>) pr (Rejected e)"

definition then_catch :: "world \<Rightarrow> prom \<Rightarrow> reaction \<Rightarrow> world" where
  "then_catch w pr r =
     (let w1 = w\<lparr>reactions := (reactions w)(pr \<mapsto> r)\<rparr>
      in if promises w1 pr \<noteq> None then w1\<lparr>microtasks := microtasks w1 @ [React pr]\<rparr> else w1)"

subsection \<open>The two handlers of voiceServerUpdate\<close>

text \<open>
  Both handlers look the player up again by guild id. With a pending entry and no player in
  the map, \<^verbatim>\<open>player.removeListener\<close> is a call on \<^verbatim>\<open>undefined\<close>: a TypeError.
\<close>

definition disconnectHandler :: "world \<Rightarrow> nat \<Rightarrow> string \<Rightarrow> world \<times> error option" where
  "disconnectHandler w h g =
     (let player = map_of (players w) g
      in case pendingGuilds w g of
           None \<Rightarrow> (case player of
                      Some p \<Rightarrow> (removeListener w p EvReady (ReadyHandler h g), None)
                    | None \<Rightarrow> (w, None))
         | Some pg \<Rightarrow> (case player of
                      None \<Rightarrow> (w, Some TypeError)
                    | Some p \<Rightarrow>
                        (let w1 = removeListener w p EvReady (ReadyHandler h g);
                             w2 = rej w1 (pg_promise pg) DisconnectedError
                         in (w2\<lparr>pendingGuilds := (pendingGuilds w2)(g := None)\<rparr>, None))))"

definition readyHandler :: "world \<Rightarrow> nat \<Rightarrow> string \<Rightarrow> world \<times> error option" where
  "readyHandler w h g =
     (let player = map_of (players w) g
      in case pendingGuilds w g of
           None \<Rightarrow> (case player of
                      Some p \<Rightarrow> (removeListener w p EvDisconnect (DisconnectHandler h g), None)
                    | None \<Rightarrow> (w, None))
         | Some pg \<Rightarrow> (case player of
                      None \<Rightarrow> (w, Some TypeError)
                    | Some p \<Rightarrow>
                        (let w1 = removeListener w p EvDisconnect (DisconnectHandler h g);
                             w2 = res w1 (pg_promise pg) p
                         in (w2\<lparr>pendingGuilds := (pendingGuilds w2)(g := None)\<rparr>, None))))"

subsection \<open>emit\<close>

fun call_listener :: "world \<Rightarrow> pid \<Rightarrow> event_name \<Rightarrow> listener \<Rightarrow> world \<times> error option" where
  "call_listener w p ev (User k) = (w\<lparr>heard := heard w @ [(p, ev, k)]\<rparr>, None)"
| "call_listener w p ev (RestoreEnd ls) = (fold (\<lambda>l w'. on w' p EvEnd l) ls w, None)"
| "call_listener w p ev (ReadyHandler h g) = readyHandler w h g"
| "call_listener w p ev (DisconnectHandler h g) = disconnectHandler w h g"

text \<open>The listeners run in order over a copy of the list; an exception ends the emit.\<close>

fun run_listeners ::
  "world \<Rightarrow> pid \<Rightarrow> event_name \<Rightarrow> (listener \<times> bool) list \<Rightarrow> world \<times> error option" where
  "run_listeners w p ev [] = (w, None)"
| "run_listeners w p ev (r # rs) =
     (let w1 = (if snd r then remove_once w p ev (fst r) else w)
      in case call_listener w1 p ev (fst r) of
           (w2, Some e) \<Rightarrow> (w2, Some e)
         | (w2, None) \<Rightarrow> run_listeners w2 p ev rs)"

definition emit :: "world \<Rightarrow> pid \<Rightarrow> event_name \<Rightarrow> world \<times> error option" where
  "emit w p ev =
     run_listeners (w\<lparr>emitted := emitted w @ [(p, ev)]\<rparr>) p ev (listeners (playerObjs w p) ev)"

subsection \<open>connect, disconnect, track end\<close>

definition connect ::
  "world \<Rightarrow> pid \<Rightarrow> string \<Rightarrow> string \<Rightarrow> string \<times> string \<times> string \<Rightarrow> world \<times> error option" where
  "connect w p data_guildId data_sessionId data_event =
     (case emit w p EvConnect of
        (w1, Some e) \<Rightarrow> (w1, Some e)
      | (w1, None) \<Rightarrow>
          (let w2 = queueEvent w1 p (VoiceUpdateOp data_guildId data_sessionId data_event)
           in (w2\<lparr>nextTick := nextTick w2 @ [EmitReady p]\<rparr>, None)))"

definition disconnect :: "world \<Rightarrow> pid \<Rightarrow> world \<times> error option" where
  "disconnect w p = emit (private_disconnect w p) p EvDisconnect"

definition onTrackEnd :: "world \<Rightarrow> pid \<Rightarrow> string \<Rightarrow> world \<times> error option" where
  "onTrackEnd w p reason =
     (let w1 = (if reason \<noteq> ''REPLACED''
                then upd_player w p (\<lambda>pl. pl\<lparr>playing := False, lastTrack := track pl, track := None\<rparr>)
                else w)
      in emit w1 p EvEnd)"

subsection \<open>Migration: switchNode and play\<close>

text \<open>
  \<^verbatim>\<open>switchNode\<close> up to its \<^verbatim>\<open>process.nextTick\<close>; the deferred part is the task \<open>Rejoin\<close>, which
  carries the values the closure captured. \<^verbatim>\<open>player.listeners('end')\<close> gives the listener
  functions without their \<^verbatim>\<open>once\<close> wrappers. \<^verbatim>\<open>x || d\<close> on numbers takes \<open>d\<close> for 0 as well.
\<close>

definition switchNode :: "world \<Rightarrow> pid \<Rightarrow> bool \<Rightarrow> world" where
  "switchNode w p leave =
     (let pl = playerObjs w p;
          pos = (case position pl of None \<Rightarrow> 0 | Some x \<Rightarrow> x)
              + (case reconnectThreshold w of None \<Rightarrow> 2000
                 | Some t \<Rightarrow> if t = 0 then 2000 else t);
          endListeners = map fst (listeners pl EvEnd);
          w1 = fold (\<lambda>l w'. removeListener w' p EvEnd l) endListeners w;
          w2 = once w1 p EvEnd (RestoreEnd endListeners);
          w3 = w2\<lparr>players := AList.delete (guildId pl) (players w2)\<rparr>;
          w4 = upd_player w3 p (\<lambda>pl. pl\<lparr>playing := False\<rparr>);
          w5 = (if leave then updateVoiceState w4 p None None None else w4)
      in w5\<lparr>nextTick := nextTick w5 @
              [Rejoin p (guildId pl) (channelId pl) (track pl) (paused pl) pos]\<rparr>)"

definition play :: "world \<Rightarrow> pid \<Rightarrow> string option \<Rightarrow> play_options option \<Rightarrow> world" where
  "play w p trk options =
     (let w1 = upd_player w p
                 (\<lambda>pl. pl\<lparr>lastTrack := track pl, track := trk, playOptions := options\<rparr>)
      in if draining (nodeObjs w1 (node (playerObjs w1 p)))
         then switchNode (upd_player w1 p (\<lambda>pl. pl\<lparr>position := Some 0\<rparr>)) p False
         else (let w2 = queueEvent w1 p (PlayOp (guildId (playerObjs w1 p)) trk options)
               in upd_player w2 p (\<lambda>pl. pl\<lparr>playing := \<not> paused pl\<rparr>)))"

subsection \<open>Node selection\<close>

text \<open>\<^verbatim>\<open>a.stats.cpu ? (a.stats.cpu.systemLoad / a.stats.cpu.cores) * 100 : 0\<close>.\<close>

definition load :: "lavalink \<Rightarrow> real" where
  "load n = (case cpu n of None \<Rightarrow> 0 | Some (systemLoad, cores) \<Rightarrow> (systemLoad / cores) * 100)"

text \<open>JavaScript truthiness of an optional string.\<close>

definition truthy :: "string option \<Rightarrow> bool" where
  "truthy s = (case s of None \<Rightarrow> False | Some x \<Rightarrow> x \<noteq> [])"

definition candidates :: "world \<Rightarrow> nid list" where
  "candidates w =
     filter (\<lambda>i. \<not> draining (nodeObjs w i) \<and> ws (nodeObjs w i) \<and> connected (nodeObjs w i))
       (map snd (nodes w))"

definition regionalNodes :: "world \<Rightarrow> string option \<Rightarrow> nid list" where
  "regionalNodes w reg = filter (\<lambda>i. region (nodeObjs w i) = reg) (candidates w)"

text \<open>
  \<^verbatim>\<open>findIdealNode\<close>: the comparator \<^verbatim>\<open>aload - bload\<close> orders by load, and \<^verbatim>\<open>sort\<close> is the
  stable sort on that key; \<^verbatim>\<open>nodes[0]\<close> of an empty array is \<^verbatim>\<open>undefined\<close>.
\<close>

definition findIdealNode :: "world \<Rightarrow> string option \<Rightarrow> nid option" where
  "findIdealNode w reg =
     (let nodes0 = candidates w;
          nodes1 = (if truthy reg
                    then (let regional = regionalNodes w reg
                          in if length regional > 0 then regional else nodes0)
                    else nodes0);
          nodes2 = sort_key (\<lambda>i. load (nodeObjs w i)) nodes1
      in case nodes2 of [] \<Rightarrow> None | i # _ \<Rightarrow> Some i)"

subsection \<open>Region classification\<close>

text \<open>\<^verbatim>\<open>String.prototype.replace\<close> with a string pattern replaces the first occurrence.\<close>

fun replace_first :: "string \<Rightarrow> string \<Rightarrow> string \<Rightarrow> string" where
  "replace_first pat rep [] = (if pat = [] then rep else [])"
| "replace_first pat rep (c # cs) =
     (if prefix pat (c # cs) then rep @ drop (length pat) (c # cs)
      else c # replace_first pat rep cs)"

definition region_or_default :: "world \<Rightarrow> string" where
  "region_or_default w = (if truthy (defaultRegion w) then the (defaultRegion w) else ''us'')"

fun scan_regions :: "world \<Rightarrow> string \<Rightarrow> (string \<times> string list) list \<Rightarrow> string option" where
  "scan_regions w ep [] = None"
| "scan_regions w ep ((key, names) # rest) =
     (let ns = filter (\<lambda>i. region (nodeObjs w i) = Some key) (map snd (nodes w))
      in if length ns = 0 then scan_regions w ep rest
         else if find (\<lambda>i. connected (nodeObjs w i) \<and> \<not> draining (nodeObjs w i)) ns = None
              then scan_regions w ep rest
         else if find (\<lambda>r. prefix r ep) names = None then scan_regions w ep rest
         else Some key)"

definition getRegionFromData :: "world \<Rightarrow> string \<Rightarrow> string" where
  "getRegionFromData w ep =
     (if ep = [] then region_or_default w
      else (case scan_regions w (replace_first ''vip-'' [] ep) (regions w) of
              Some key \<Rightarrow> key
            | None \<Rightarrow> region_or_default w))"

subsection \<open>Timers\<close>

definition setTimeout :: "world \<Rightarrow> timer_action \<Rightarrow> nat \<Rightarrow> world \<times> nat" where
  "setTimeout w a delay =
     (let h = nextTimer w
      in (w\<lparr>timers := timers w @ [(h, delay, a)], nextTimer := Suc h\<rparr>, h))"

definition clearTimeout :: "world \<Rightarrow> nat \<Rightarrow> world" where
  "clearTimeout w h = w\<lparr>timers := filter (\<lambda>t. fst t \<noteq> h) (timers w)\<rparr>"

subsection \<open>join\<close>

text \<open>The part of \<^verbatim>\<open>join\<close> from \<^verbatim>\<open>if (!node)\<close> on; \<open>pr\<close> is the promise \<^verbatim>\<open>join\<close> returned.\<close>

definition joinCont ::
  "world \<Rightarrow> string \<Rightarrow> string \<Rightarrow> join_options \<Rightarrow> pid option \<Rightarrow> nid option \<Rightarrow> prom \<Rightarrow> world" where
  "joinCont w g channel options player nd pr =
     (case nd of
        None \<Rightarrow> fulfil w pr (Rejected NoAvailableVoiceNodes)
      | Some n \<Rightarrow>
          (let (w1, h) = setTimeout w (JoinTimeout g pr) 10000
           in w1\<lparr>pendingGuilds := (pendingGuilds w1)(g \<mapsto>
                 \<lparr>pg_channelId = channel, pg_hostname = None, pg_options = options,
                  pg_player = player, pg_node = n, pg_promise = pr, pg_timeout = Some h\<rparr>)\<rparr>))"

text \<open>The callback of the join timer.\<close>

definition joinTimeout :: "world \<Rightarrow> string \<Rightarrow> prom \<Rightarrow> world" where
  "joinTimeout w g pr =
     rej (w\<lparr>pendingGuilds := (pendingGuilds w)(g := None)\<rparr>) pr VoiceConnectionTimeout"

text \<open>
  \<^verbatim>\<open>join\<close> is an async function: it returns its promise at once. With \<^verbatim>\<open>options.node\<close> the
  body runs to its end in the call; otherwise it runs up to \<^verbatim>\<open>await this.findIdealNode\<close>
  (the selection itself is done in the call) and the rest is a promise job. A lookup of
  \<^verbatim>\<open>options.node\<close> that finds no node makes \<^verbatim>\<open>node.region\<close> throw, which rejects the promise.
\<close>

definition join ::
  "world \<Rightarrow> string \<Rightarrow> string \<Rightarrow> join_options option \<Rightarrow> pid option \<Rightarrow> world \<times> prom" where
  "join w g channel options player =
     (let pr = nextPromise w;
          w0 = w\<lparr>nextPromise := Suc pr\<rparr>;
          opts = (case options of None \<Rightarrow> \<lparr>jo_node = None, jo_region = None\<rparr> | Some x \<Rightarrow> x);
          player1 = (case player of Some p \<Rightarrow> Some p | None \<Rightarrow> map_of (players w0) g)
      in if player1 \<noteq> None \<and> channelId (playerObjs w0 (the player1)) \<noteq> channel
         then (let w1 = switchChannel w0 (the player1) channel False
               in (fulfil w1 pr (Resolved (the player1)), pr))
         else if truthy (jo_node opts)
         then (case map_of (nodes w0) (the (jo_node opts)) of
                 None \<Rightarrow> (fulfil w0 pr (Rejected TypeError), pr)
               | Some n \<Rightarrow> (joinCont w0 g channel opts player1 (Some n) pr, pr))
         else (let reg = getRegionFromData w0
                           (if truthy (jo_region opts) then the (jo_region opts) else ''us'');
                   nd = findIdealNode w0 (Some reg)
               in (w0\<lparr>microtasks := microtasks w0 @ [JoinCont g channel opts player1 nd pr]\<rparr>,
                   pr)))"

subsection \<open>voiceServerUpdate\<close>

definition Player_new ::
  "string \<Rightarrow> shard \<Rightarrow> string \<Rightarrow> string \<Rightarrow> string option \<Rightarrow> nid \<Rightarrow> join_options option \<Rightarrow> player" where
  "Player_new ident sh g channel hn n options =
     \<lparr>id_p = ident, node = n, hostname = hn, guildId = g, channelId = channel,
      options_p = options, ready = False, playing = False, paused = False, shard = sh,
      position = None, track = None, lastTrack = None, playOptions = None, sendQueue = [],
      listeners = (\<lambda>ev. [])\<rparr>"

text \<open>
  From \<^verbatim>\<open>const channelId = ...\<close> on. Reading \<^verbatim>\<open>.channelId\<close> or \<^verbatim>\<open>.rej\<close> of a missing entry
  throws a TypeError; the state changes made before it stay.
\<close>

definition voiceServerUpdate_connect ::
  "world \<Rightarrow> voice_server_update \<Rightarrow> pid \<Rightarrow> world \<times> error option" where
  "voiceServerUpdate_connect w data p =
     (let g = guild_id data
      in if channelId (playerObjs w p) = [] \<and> pendingGuilds w g = None then (w, Some TypeError)
         else (let channel = (if channelId (playerObjs w p) \<noteq> [] then channelId (playerObjs w p)
                              else pg_channelId (the (pendingGuilds w g)))
               in if channel = []
                  then (if pendingGuilds w g \<noteq> None
                        then (w\<lparr>pendingGuilds := (pendingGuilds w)(g := None)\<rparr>, Some TypeError)
                        else (w, None))
                  else (case connect w p g (session_id data) (endpoint data, g, token data) of
                          (w1, Some e) \<Rightarrow> (w1, Some e)
                        | (w1, None) \<Rightarrow>
                            (let h = nextHandler w1;
                                 w2 = w1\<lparr>nextHandler := Suc h\<rparr>;
                                 w3 = once w2 p EvReady (ReadyHandler h g);
                                 w4 = once w3 p EvDisconnect (DisconnectHandler h g)
                             in (w4, None)))))"

definition voiceServerUpdate :: "world \<Rightarrow> voice_server_update \<Rightarrow> world \<times> error option" where
  "voiceServerUpdate w data =
     (let g = guild_id data;
          w1 = (case pendingGuilds w g of
                  None \<Rightarrow> w
                | Some pg \<Rightarrow>
                    (case pg_timeout pg of
                       None \<Rightarrow> w
                     | Some h \<Rightarrow>
                         (let w' = clearTimeout w h
                          in w'\<lparr>pendingGuilds := (pendingGuilds w')(g \<mapsto> pg\<lparr>pg_timeout := None\<rparr>)\<rparr>)))
      in case map_of (players w1) g of
           Some p \<Rightarrow> voiceServerUpdate_connect w1 data p
         | None \<Rightarrow>
             (case pendingGuilds w1 g of
                None \<Rightarrow> (w1, None)
              | Some pg \<Rightarrow>
                  (case pg_player pg of
                     Some p \<Rightarrow>
                       (let w2 = upd_player w1 p
                                   (\<lambda>pl. pl\<lparr>hostname := pg_hostname pg, node := pg_node pg\<rparr>);
                            w3 = w2\<lparr>players := AList.update g p (players w2)\<rparr>
                        in voiceServerUpdate_connect w3 data p)
                   | None \<Rightarrow>
                       (let p = nextPlayer w1;
                            w2 = w1\<lparr>nextPlayer := Suc p,
                                    playerObjs := (playerObjs w1)(p :=
                                      Player_new g (data_shard data) g (pg_channelId pg)
                                        (pg_hostname pg) (pg_node pg) (Some (pg_options pg)))\<rparr>;
                            w3 = w2\<lparr>players := AList.update g p (players w2)\<rparr>
                        in voiceServerUpdate_connect w3 data p))))"


subsection \<open>The failover queue\<close>

definition run_thunk :: "world \<Rightarrow> thunk \<Rightarrow> world" where
  "run_thunk w fn = (case fn of SwitchNode p leave \<Rightarrow> switchNode w p leave)"

definition processQueue :: "world \<Rightarrow> thunk \<Rightarrow> world" where
  "processQueue w fn =
     (let w1 = run_thunk w fn
      in fst (setTimeout w1 CheckFailoverQueue (failoverRate w1)))"

definition checkFailoverQueue :: "world \<Rightarrow> world" where
  "checkFailoverQueue w =
     (if length (failoverQueue w) > 0
      then (let fns = take (failoverLimit w) (failoverQueue w);
                w1 = w\<lparr>failoverQueue := drop (failoverLimit w) (failoverQueue w)\<rparr>
            in fold (\<lambda>fn w'. processQueue w' fn) fns w1)
      else w)"

definition queueFailover :: "world \<Rightarrow> thunk \<Rightarrow> world" where
  "queueFailover w fn =
     (if length (failoverQueue w) > 0
      then w\<lparr>failoverQueue := failoverQueue w @ [fn]\<rparr>
      else processQueue w fn)"

text \<open>\<^verbatim>\<open>onDisconnect\<close> and \<^verbatim>\<open>shardReady\<close>: the players are selected before the loop starts.
  \<^verbatim>\<open>player.shard.id && player.shard.id === id\<close> is false for an absent id and for the id 0.\<close>

definition onDisconnect :: "world \<Rightarrow> nid \<Rightarrow> world" where
  "onDisconnect w n =
     (let ps = filter (\<lambda>p. host (nodeObjs w (node (playerObjs w p))) = host (nodeObjs w n))
                 (map snd (players w))
      in fold (\<lambda>p w'. queueFailover w' (SwitchNode p True)) ps w)"

definition shardReady :: "world \<Rightarrow> int \<Rightarrow> world" where
  "shardReady w ident =
     (let ps = filter (\<lambda>p. shard_id (shard (playerObjs w p)) \<noteq> None
                         \<and> shard_id (shard (playerObjs w p)) \<noteq> Some 0
                         \<and> shard_id (shard (playerObjs w p)) = Some ident)
                 (map snd (players w))
      in fold (\<lambda>p w'. queueFailover w' (SwitchNode p False)) ps w)"

definition leave :: "world \<Rightarrow> string \<Rightarrow> world" where
  "leave w g =
     (case map_of (players w) g of
        None \<Rightarrow> w
      | Some p \<Rightarrow> (let w1 = private_disconnect w p
                   in w1\<lparr>players := AList.delete g (players w1)\<rparr>))"

subsection \<open>The event loop\<close>

text \<open>
  The \<^verbatim>\<open>then\<close> callback of \<^verbatim>\<open>switchNode\<close>, given the player the join promise resolved with.
\<close>

definition migrated :: "world \<Rightarrow> pid \<Rightarrow> string \<Rightarrow> string option \<Rightarrow> bool \<Rightarrow> int \<Rightarrow> world \<times> error option" where
  "migrated w q g trk was_paused pos =
     (let w1 = (if was_paused then pause w q else w);
          w2 = play w1 q trk (Some [(''startTime'', pos)])
      in case emit w2 q EvReconnect of
           (w3, Some e) \<Rightarrow> (w3, Some e)
         | (w3, None) \<Rightarrow> (w3\<lparr>players := AList.update g q (players w3)\<rparr>, None))"

definition run_task :: "world \<Rightarrow> task \<Rightarrow> world \<times> error option" where
  "run_task w t =
     (case t of
        CheckEventQueue p \<Rightarrow> (checkEventQueue w p, None)
      | EmitReady p \<Rightarrow> emit w p EvReady
      | Rejoin p g channel trk was_paused pos \<Rightarrow>
          (let (w1, pr) = join w g channel None (Some p)
           in (then_catch w1 pr (Migrated p g trk was_paused pos), None)))"

text \<open>A rejected join, or an exception in the \<^verbatim>\<open>then\<close> callback, runs the \<^verbatim>\<open>catch\<close> callback.\<close>

definition run_job :: "world \<Rightarrow> job \<Rightarrow> world \<times> error option" where
  "run_job w j =
     (case j of
        JoinCont g channel options player nd pr \<Rightarrow>
          (joinCont w g channel options player nd pr, None)
      | React pr \<Rightarrow>
          (case reactions w pr of
             None \<Rightarrow> (w, None)
           | Some (Migrated p g trk was_paused pos) \<Rightarrow>
               (case promises w pr of
                  None \<Rightarrow> (w, None)
                | Some (Resolved q) \<Rightarrow>
                    (case migrated w q g trk was_paused pos of
                       (w1, Some e) \<Rightarrow> disconnect w1 p
                     | (w1, None) \<Rightarrow> (w1, None))
                | Some (Rejected e) \<Rightarrow> disconnect w p)))"

definition note_uncaught :: "world \<times> error option \<Rightarrow> world" where
  "note_uncaught r = (case r of (w, None) \<Rightarrow> w | (w, Some e) \<Rightarrow> w\<lparr>uncaught := uncaught w @ [e]\<rparr>)"

text \<open>
  One step of the loop between two I/O events: the \<^verbatim>\<open>nextTick\<close> queue is emptied first, then
  the promise jobs are run until none is left, then the \<^verbatim>\<open>nextTick\<close> queue again.
\<close>

definition step :: "world \<Rightarrow> world" where
  "step w =
     (case (phase w, nextTick w, microtasks w) of
        (TickPhase, t # ts, _) \<Rightarrow> note_uncaught (run_task (w\<lparr>nextTick := ts\<rparr>) t)
      | (TickPhase, [], j # js) \<Rightarrow>
          note_uncaught (run_job (w\<lparr>phase := MicrotaskPhase, microtasks := js\<rparr>) j)
      | (TickPhase, [], []) \<Rightarrow> w
      | (MicrotaskPhase, _, j # js) \<Rightarrow> note_uncaught (run_job (w\<lparr>microtasks := js\<rparr>) j)
      | (MicrotaskPhase, t # ts, []) \<Rightarrow>
          note_uncaught (run_task (w\<lparr>phase := TickPhase, nextTick := ts\<rparr>) t)
      | (MicrotaskPhase, [], []) \<Rightarrow> w\<lparr>phase := TickPhase\<rparr>)"

definition idle :: "world \<Rightarrow> bool" where
  "idle w = (nextTick w = [] \<and> microtasks w = [])"

fun steps :: "nat \<Rightarrow> world \<Rightarrow> world" where
  "steps 0 w = w"
| "steps (Suc k) w = steps k (step w)"

text \<open>A timer fires: it leaves the list and its callback runs.\<close>

definition fire :: "world \<Rightarrow> nat \<Rightarrow> world" where
  "fire w h =
     (case find (\<lambda>t. fst t = h) (timers w) of
        None \<Rightarrow> w
      | Some (_, _, a) \<Rightarrow>
          (let w1 = w\<lparr>timers := filter (\<lambda>t. fst t \<noteq> h) (timers w)\<rparr>
           in case a of
                JoinTimeout g pr \<Rightarrow> joinTimeout w1 g pr
              | CheckFailoverQueue \<Rightarrow> checkFailoverQueue w1))"

subsection \<open>Construction\<close>

record manager_options =
  mo_defaultRegion :: "string option"
  mo_failoverRate :: "nat option"
  mo_failoverLimit :: "nat option"
  mo_reconnectThreshold :: "int option"
  mo_regions :: "(string \<times> string list) list option"

definition defaultRegions :: "(string \<times> string list) list" where
  "defaultRegions =
     [(''asia'', [''hongkong'', ''singapore'', ''sydney'']),
      (''eu'', [''eu'', ''amsterdam'', ''frankfurt'', ''russia'']),
      (''us'', [''us'', ''brazil''])]"

text \<open>\<^verbatim>\<open>createNode\<close> passes host and region on to the Lavalink constructor, never a timeout.\<close>

definition createNode :: "world \<Rightarrow> lavalink_options \<Rightarrow> world" where
  "createNode w options =
     (let i = nextNode w;
          n = Lavalink_new \<lparr>opt_host = opt_host options, opt_region = opt_region options,
                            opt_timeout = None\<rparr>
      in w\<lparr>nextNode := Suc i, nodeObjs := (nodeObjs w)(i := n),
           nodes := AList.update (opt_host options) i (nodes w)\<rparr>)"

definition or_default :: "nat option \<Rightarrow> nat \<Rightarrow> nat" where
  "or_default x d = (case x of None \<Rightarrow> d | Some v \<Rightarrow> if v = 0 then d else v)"

definition PlayerManager_new :: "lavalink_options list \<Rightarrow> manager_options \<Rightarrow> world" where
  "PlayerManager_new ns options =
     fold (\<lambda>n w. createNode w n) ns
       \<lparr>nodeObjs = (\<lambda>_. Lavalink_new \<lparr>opt_host = [], opt_region = None, opt_timeout = None\<rparr>),
        playerObjs = (\<lambda>_. Player_new [] \<lparr>shard_id = None, sendWS = False\<rparr> [] [] None 0 None),
        nextNode = 0, nextPlayer = 0, nodes = [], players = [], pendingGuilds = Map.empty,
        failoverQueue = [],
        failoverRate = or_default (mo_failoverRate options) 250,
        failoverLimit = or_default (mo_failoverLimit options) 1,
        regions = (case mo_regions options of None \<Rightarrow> defaultRegions | Some r \<Rightarrow> r),
        defaultRegion = mo_defaultRegion options,
        reconnectThreshold = mo_reconnectThreshold options,
        nextTick = [], microtasks = [], phase = TickPhase, timers = [], nextTimer = 0,
        promises = (\<lambda>_. None), calls = [], reactions = Map.empty, nextPromise = 0,
        nextHandler = 0, gateway = [], emitted = [], heard = [], uncaught = []\<rparr>"

text \<open>
  The socket events of a node as the coordinator sees them: \<^verbatim>\<open>open\<close> (of a socket that
  exists) runs \<^verbatim>\<open>ready\<close>; \<^verbatim>\<open>close\<close>
  runs \<^verbatim>\<open>disconnected\<close>, whose \<^verbatim>\<open>disconnect\<close> event (emitted only when no reconnect timer is
  armed) is wired to \<^verbatim>\<open>onDisconnect\<close>.
\<close>

definition node_open :: "world \<Rightarrow> nid \<Rightarrow> world" where
  "node_open w i = (if ws (nodeObjs w i) then upd_node w i ready_node else w)"

definition node_close :: "world \<Rightarrow> nid \<Rightarrow> world" where
  "node_close w i =
     (let announced = (reconnectInterval (nodeObjs w i) = None);
          w1 = upd_node w i disconnected
      in if announced then onDisconnect w1 i else w1)"

text \<open>The \<^verbatim>\<open>stats\<close> message of a node replaces its cached statistics.\<close>

definition node_stats :: "world \<Rightarrow> nid \<Rightarrow> real \<Rightarrow> real \<Rightarrow> world" where
  "node_stats w i systemLoad cores = upd_node w i (\<lambda>n. n\<lparr>cpu := Some (systemLoad, cores)\<rparr>)"

subsection \<open>Control commands of one session\<close>

text \<open>
  The control commands, each with the payload it is to put on the wire. A voiceUpdate is
  the command of \<^verbatim>\<open>connect\<close> (with the guild id of its argument) and a destroy the command
  of \<^verbatim>\<open>_disconnect\<close>; the others are the methods \<^verbatim>\<open>play\<close>, \<^verbatim>\<open>stop\<close>, \<^verbatim>\<open>setPause\<close>, \<^verbatim>\<open>seek\<close> and
  \<^verbatim>\<open>setVolume\<close>.
\<close>

datatype command =
    VoiceUpdateC string string "string \<times> string \<times> string"
  | PlayC "string option" "play_options option"
  | StopC
  | PauseC bool
  | SeekC int
  | VolumeC int
  | DestroyC


fun issue :: "world \<Rightarrow> pid \<Rightarrow> command \<Rightarrow> world" where
  "issue w p (VoiceUpdateC dg sid ev) = queueEvent w p (VoiceUpdateOp dg sid ev)"
| "issue w p (PlayC trk opts) = play w p trk opts"
| "issue w p StopC = stop w p"
| "issue w p (PauseC b) = setPause w p b"
| "issue w p (SeekC x) = seek w p x"
| "issue w p (VolumeC v) = setVolume w p v"
| "issue w p DestroyC = queueEvent w p (DestroyOp (guildId (playerObjs w p)))"





text \<open>\<^verbatim>\<open>stateUpdate\<close> replaces the player's state object.\<close>

definition stateUpdate :: "world \<Rightarrow> pid \<Rightarrow> int option \<Rightarrow> world" where
  "stateUpdate w p state_position = upd_player w p (\<lambda>pl. pl\<lparr>position := state_position\<rparr>)"

definition is_user :: "listener \<Rightarrow> bool" where
  "is_user l = (case l of User k \<Rightarrow> True | _ \<Rightarrow> False)"

section \<open>Reachable states\<close>

text \<open>
  The states the coordinator can be in: it is constructed, and then driven by the caller
  (nodes added and drained, joins and leaves, session commands and listeners), by the
  sockets of its nodes, by the shard layer, by timers and by the event loop.
\<close>

inductive reachable :: "world \<Rightarrow> bool" where
  r_new: "reachable (PlayerManager_new ns options)"
| r_createNode: "reachable w \<Longrightarrow> reachable (createNode w options')"
| r_open: "reachable w \<Longrightarrow> reachable (node_open w i)"
| r_close: "reachable w \<Longrightarrow> reachable (node_close w i)"
| r_redial: "reachable w \<Longrightarrow> reachable (upd_node w i reconnect)"
| r_stats: "reachable w \<Longrightarrow> reachable (node_stats w i systemLoad cores)"
| r_drain: "reachable w \<Longrightarrow> reachable (upd_node w i (\<lambda>n. n\<lparr>draining := True\<rparr>))"
| r_join: "reachable w \<Longrightarrow> reachable (fst (join w g channel opts player))"
| r_assignment: "reachable w \<Longrightarrow> reachable (note_uncaught (voiceServerUpdate w data))"
| r_step: "reachable w \<Longrightarrow> reachable (step w)"
| r_fire: "reachable w \<Longrightarrow> reachable (fire w h)"
| r_shardReady: "reachable w \<Longrightarrow> reachable (shardReady w k)"
| r_leave: "reachable w \<Longrightarrow> reachable (leave w g)"
| r_issue: "reachable w \<Longrightarrow> reachable (issue w p c)"
| r_pause: "reachable w \<Longrightarrow> reachable (pause w p)"
| r_resume: "reachable w \<Longrightarrow> reachable (resume w p)"
| r_disconnect: "reachable w \<Longrightarrow> reachable (note_uncaught (disconnect w p))"
| r_switchChannel: "reachable w \<Longrightarrow> reachable (switchChannel w p channel reactive)"
| r_on: "reachable w \<Longrightarrow> reachable (on w p ev (User k'))"
| r_once: "reachable w \<Longrightarrow> reachable (once w p ev (User k'))"
| r_stateUpdate: "reachable w \<Longrightarrow> reachable (stateUpdate w p state_position)"
| r_trackEnd: "reachable w \<Longrightarrow> reachable (note_uncaught (onTrackEnd w p reason))"

text \<open>Nothing waits in the failover queue or in a session's send queue, no session has
  its \<^verbatim>\<open>ready\<close> flag set, and every connected node has its socket.\<close>

definition quiet :: "world \<Rightarrow> bool" where
  "quiet w \<longleftrightarrow>
     failoverQueue w = [] \<and>
     (\<forall>p. sendQueue (playerObjs w p) = [] \<and> \<not> ready (playerObjs w p)) \<and>
     (\<forall>i. socket_ok (nodeObjs w i))"

section \<open>Example states\<close>

definition default_options :: manager_options where
  "default_options =
     \<lparr>mo_defaultRegion = None, mo_failoverRate = None, mo_failoverLimit = None,
      mo_reconnectThreshold = None, mo_regions = None\<rparr>"




text \<open>One connected node of region us on a coordinator with the default options.\<close>

definition one_node :: world where
  "one_node =
     node_open
       (PlayerManager_new [\<lparr>opt_host = ''a'', opt_region = Some ''us'', opt_timeout = None\<rparr>]
          default_options) 0"

definition shard0 :: shard where
  "shard0 = \<lparr>shard_id = Some 0, sendWS = True\<rparr>"

definition shard1 :: shard where
  "shard1 = \<lparr>shard_id = Some 1, sendWS = True\<rparr>"

definition assignment :: "string \<Rightarrow> shard \<Rightarrow> voice_server_update" where
  "assignment g sh =
     \<lparr>guild_id = g, endpoint = ''us-east1.discord.gg'', token = ''t'', session_id = ''s'',
      data_shard = sh\<rparr>"

text \<open>
  A join by the library's caller, with the event loop run until it is idle (two steps
  suffice), and the arrival of the voice server update, again run until idle (three steps).
\<close>

definition join_call :: "world \<Rightarrow> string \<Rightarrow> string \<Rightarrow> world" where
  "join_call w g channel = steps 2 (fst (join w g channel None None))"

definition assignment_arrives :: "world \<Rightarrow> string \<Rightarrow> shard \<Rightarrow> world" where
  "assignment_arrives w g sh = steps 3 (note_uncaught (voiceServerUpdate w (assignment g sh)))"

text \<open>Scenario A: \<^verbatim>\<open>join("g1", "c1")\<close>, then the matching voice server update.\<close>

definition scenario_A :: world where
  "scenario_A = assignment_arrives (join_call one_node ''g1'' ''c1'') ''g1'' shard1"

text \<open>The same join with an empty channel id.\<close>

definition scenario_no_channel :: "world \<times> error option" where
  "scenario_no_channel =
     voiceServerUpdate (join_call one_node ''g1'' []) (assignment ''g1'' shard1)"

text \<open>A session of shard 0, and the same session on shard 1.\<close>

definition session_on_shard0 :: world where
  "session_on_shard0 = assignment_arrives (join_call one_node ''g1'' ''c1'') ''g1'' shard0"

text \<open>Two connected nodes; five sessions, all served by the first node; that node's
  socket closes.\<close>

definition two_nodes :: world where
  "two_nodes =
     node_open (node_open
       (PlayerManager_new [\<lparr>opt_host = ''a'', opt_region = Some ''us'', opt_timeout = None\<rparr>,
                           \<lparr>opt_host = ''b'', opt_region = Some ''us'', opt_timeout = None\<rparr>]
          default_options) 0) 1"

definition establish :: "world \<Rightarrow> string \<Rightarrow> string \<Rightarrow> world" where
  "establish w g channel = assignment_arrives (join_call w g channel) g shard1"

definition five_sessions :: world where
  "five_sessions =
     establish (establish (establish (establish (establish two_nodes
       ''g1'' ''c1'') ''g2'' ''c2'') ''g3'' ''c3'') ''g4'' ''c4'') ''g5'' ''c5''"

definition first_node_fails :: world where
  "first_node_fails = node_close five_sessions 0"

text \<open>
  Scenario C for one session: a caller listens for \<^verbatim>\<open>end\<close>, track T plays and is at
  5000 ms; the serving node closes; the session rejoins through the other node when the
  voice server update arrives; later the track ends.
\<close>

definition playing_T :: world where
  "playing_T =
     stateUpdate
       (steps 1 (play (on (establish two_nodes ''g1'' ''c1'') 0 EvEnd (User 7)) 0 (Some ''T'') None))
       0 (Some 5000)"

definition outage :: world where
  "outage = steps 2 (node_close playing_T 0)"

text \<open>The voice server update has arrived and the session has emitted \<^verbatim>\<open>ready\<close>; the
  callbacks of the join promise are the next job.\<close>

definition assignment_seen :: world where
  "assignment_seen = steps 2 (note_uncaught (voiceServerUpdate outage (assignment ''g1'' shard1)))"

definition migration_done :: world where
  "migration_done = steps 3 assignment_seen"

definition track_ends :: world where
  "track_ends = note_uncaught (onTrackEnd migration_done 0 ''FINISHED'')"

text \<open>The same outage with no node left to rejoin through.\<close>

definition join_refused :: world where
  "join_refused = steps 2 (node_close (node_close playing_T 1) 0)"

definition outage_no_node :: world where
  "outage_no_node = steps 3 join_refused"



section \<open>Reconnect backoff\<close>

lemma after_failures_retries:
  "retries n = 0 \<Longrightarrow> retries (after_failures n k) = int k"
  by (induction k) (simp_all add: disconnected_def Let_def reconnect_def connect_node_def)

lemma after_failures_Suc_interval:
  "reconnectInterval (after_failures n (Suc k)) = Some (retryInterval (after_failures n k))"
  by (simp add: disconnected_def Let_def reconnect_def connect_node_def)

lemma wait_before_later:
  assumes "retries n = 0" and "2 \<le> a"
  shows "wait_before n a = Some ((min (int a - 3) 5 + 5) ^ 2 * 1000)"
proof -
  from \<open>2 \<le> a\<close> obtain j where a: "a = Suc (Suc j)"
    by (metis Suc_le_D numeral_2_eq_2 Suc_le_mono)
  have "wait_before n a = Some (retryInterval (after_failures n j))"
    by (simp add: wait_before_def a after_failures_Suc_interval del: after_failures.simps)
  also have "retryInterval (after_failures n j) = (min (int a - 3) 5 + 5) ^ 2 * 1000"
    using assms(1) by (simp add: retryInterval_def Let_def after_failures_retries a)
  finally show ?thesis .
qed

text \<open>
  C5 (as amended). For a node with no reconnect timer armed and a retry counter of 0 (the
  state after construction and after every successful open): the first redial after a
  disconnect waits \<^verbatim>\<open>reconnectTimeout\<close> (5000 ms by default); redial number \<open>a \<ge> 2\<close> waits
  \<open>(min (a - 3) 5 + 5)\<^sup>2 * 1000\<close> ms, that is 16000, 25000, 36000, 49000, 64000, 81000 and
  then 100000 ms from the eighth redial on; after \<open>a\<close> failed redials the retry counter is
  \<open>a\<close>, and \<^verbatim>\<open>reconnect\<close> adds one to the counter before it redials.
\<close>

theorem reconnect_backoff:
  "reconnectInterval n = None \<Longrightarrow> retries n = 0 \<Longrightarrow> 2 \<le> a \<Longrightarrow>
     wait_before n 1 = Some (reconnectTimeout n) \<and>
     wait_before n a = Some ((min (int a - 3) 5 + 5) ^ 2 * 1000) \<and>
     (8 \<le> a \<longrightarrow> wait_before n a = Some 100000) \<and>
     retries (after_failures n a) = int a \<and>
     retries (reconnect m) = retries m + 1"
proof (intro conjI impI)
  assume no_timer: "reconnectInterval n = None" and fresh: "retries n = 0" and a: "2 \<le> a"
  show "wait_before n 1 = Some (reconnectTimeout n)"
    using no_timer by (simp add: wait_before_def disconnected_def Let_def)
  show later: "wait_before n a = Some ((min (int a - 3) 5 + 5) ^ 2 * 1000)"
    using fresh a by (rule wait_before_later)
  show "wait_before n a = Some 100000" if "8 \<le> a"
  proof -
    from that have "min (int a - 3) 5 = 5" by simp
    with later show ?thesis by simp
  qed
  show "retries (after_failures n a) = int a"
    using fresh by (rule after_failures_retries)
  show "retries (reconnect m) = retries m + 1"
    by (simp add: reconnect_def Let_def connect_node_def)
qed

theorem reconnect_backoff_witness:
  "reconnectInterval node0 = None \<and> retries node0 = 0 \<and> (2::nat) \<le> 8 \<and> (8::nat) \<le> 8 \<and>
   wait_before node0 1 = Some 5000 \<and> wait_before node0 8 = Some 100000 \<and>
   retries (after_failures node0 8) = 8 \<and> retries (reconnect node0) = 1"
  using reconnect_backoff [of node0 8 node0]
  by (simp add: node0_def Lavalink_new_def connect_node_def)

text \<open>
  C5 as stated fails on a node built with the default options: the first redial waits
  5000 ms and the second 16000 ms, not 25000 ms and 36000 ms.
\<close>

theorem reconnect_backoff_counterexample:
  "wait_before node0 1 = Some 5000 \<and> wait_before node0 2 = Some 16000 \<and>
   wait_before node0 1 \<noteq> Some ((min (1 - 1) 5 + 5) ^ 2 * 1000) \<and>
   wait_before node0 2 \<noteq> Some ((min (2 - 1) 5 + 5) ^ 2 * 1000)"
  by (simp add: node0_def wait_before_def Lavalink_new_def connect_node_def disconnected_def
      reconnect_def retryInterval_def Let_def)

section \<open>Sockets\<close>

lemma socket_ok_node:
  "socket_ok (Lavalink_new opts)" "socket_ok (reconnect n)" "socket_ok (disconnected n)"
  "ws n \<Longrightarrow> socket_ok (ready_node n)" "socket_ok n \<Longrightarrow> socket_ok (send n d)"
  by (auto simp: socket_ok_def Lavalink_new_def connect_node_def reconnect_def
      disconnected_def ready_node_def send_def Let_def)

section \<open>Node selection\<close>









section \<open>Evaluating the example states\<close>

lemmas session_defs =
  upd_node_def upd_player_def node_send_def send_def sendEvent_def checkEventQueue_def
  queueEvent_def setPause_def pause_def resume_def seek_def setVolume_def stop_def
  private_disconnect_def updateVoiceState_def switchChannel_def

lemmas listener_defs =
  on_def once_def remove_last_def removeListener_def remove_once_def fulfil_def res_def rej_def
  then_catch_def disconnectHandler_def readyHandler_def emit_def connect_def disconnect_def
  onTrackEnd_def

lemmas manager_defs =
  switchNode_def play_def load_def truthy_def candidates_def regionalNodes_def
  findIdealNode_def region_or_default_def getRegionFromData_def setTimeout_def
  clearTimeout_def joinCont_def joinTimeout_def join_def Player_new_def
  voiceServerUpdate_connect_def voiceServerUpdate_def run_thunk_def processQueue_def
  checkFailoverQueue_def queueFailover_def onDisconnect_def shardReady_def leave_def
  migrated_def run_task_def run_job_def note_uncaught_def step_def idle_def fire_def
  defaultRegions_def createNode_def or_default_def PlayerManager_new_def node_open_def
  node_close_def Lavalink_new_def connect_node_def ready_node_def disconnected_def

lemmas example_defs =
  default_options_def one_node_def shard0_def shard1_def assignment_def join_call_def
  assignment_arrives_def scenario_A_def scenario_no_channel_def session_on_shard0_def
  two_nodes_def establish_def five_sessions_def first_node_fails_def
  stateUpdate_def playing_T_def outage_def assignment_seen_def migration_done_def
  track_ends_def join_refused_def outage_no_node_def

lemmas eval_defs = session_defs listener_defs manager_defs example_defs Let_def
  numeral_2_eq_2 numeral_3_eq_3

text \<open>
  C4. After \<^verbatim>\<open>join("g1", "c1")\<close> and the matching voice server update, the promise that
  \<^verbatim>\<open>join\<close> returned is resolved, by one call of \<^verbatim>\<open>res\<close>, with a Player whose channel is
  \<^verbatim>\<open>"c1"\<close>; its \<^verbatim>\<open>ready\<close> flag is still the \<^verbatim>\<open>false\<close> of the constructor.
\<close>

theorem join_then_assignment_ready_flag:
  "snd (join one_node ''g1'' ''c1'' None None) = 0 \<and>
   (let w = scenario_A
    in promises w 0 = Some (Resolved 0) \<and> calls w = [(0, Resolved 0)] \<and>
       map_of (players w) ''g1'' = Some 0 \<and>
       channelId (playerObjs w 0) = ''c1'' \<and> ready (playerObjs w 0) = False \<and>
       emitted w = [(0, EvConnect), (0, EvReady)] \<and> idle w)"
  by (simp add: eval_defs cong: let_weak_cong)

text \<open>
  C6. \<^verbatim>\<open>join("g1", "")\<close> registers a pending entry for promise 0 with no channel; the voice
  server update then throws a TypeError out of \<^verbatim>\<open>voiceServerUpdate\<close>, \<^verbatim>\<open>rej\<close> is never called
  and the promise of the caller of \<^verbatim>\<open>join\<close> stays unsettled.
\<close>

theorem invalid_channel_never_rejects:
  "snd (join one_node ''g1'' [] None None) = 0 \<and>
   (let w = join_call one_node ''g1'' []
    in map_option pg_promise (pendingGuilds w ''g1'') = Some 0 \<and>
       map_option pg_channelId (pendingGuilds w ''g1'') = Some []) \<and>
   (let r = scenario_no_channel
    in snd r = Some TypeError \<and> calls (fst r) = [] \<and> promises (fst r) 0 = None)"
  by (simp add: eval_defs cong: let_weak_cong)

text \<open>
  C2. In the same run the pending entry of guild \<^verbatim>\<open>"g1"\<close> leaves the registry with neither
  \<^verbatim>\<open>res\<close> nor \<^verbatim>\<open>rej\<close> called, and nothing is left that could call them: the join timer is
  cleared and no task or job is queued.
\<close>

theorem pending_join_dropped_unsettled:
  "(let w = join_call one_node ''g1'' []
    in map_option pg_timeout (pendingGuilds w ''g1'') = Some (Some 0) \<and>
       timers w = [(0, 10000, JoinTimeout ''g1'' 0)]) \<and>
   (let w = fst scenario_no_channel
    in pendingGuilds w ''g1'' = None \<and> calls w = [] \<and> promises w 0 = None \<and>
       timers w = [] \<and> nextTick w = [] \<and> microtasks w = [])"
  by (simp add: eval_defs cong: let_weak_cong)


text \<open>
  C10. A session bound to shard 0 is not migrated when shard 0 signals ready: the state is
  unchanged. The session of scenario A, bound to shard 1, is migrated by the ready signal
  of shard 1, without a leave.
\<close>

theorem shardReady_skips_shard_zero:
  "(let w = session_on_shard0
    in map_of (players w) ''g1'' = Some 0 \<and> shard_id (shard (playerObjs w 0)) = Some 0 \<and>
       shardReady w 0 = w) \<and>
   (let w = shardReady scenario_A 1
    in nextTick w = [Rejoin 0 ''g1'' ''c1'' None False 2000] \<and> players w = [] \<and>
       gateway w = [])"
  by (simp add: eval_defs cong: let_weak_cong)

text \<open>
  C8. With \<^verbatim>\<open>failoverLimit = 1\<close> and \<^verbatim>\<open>failoverRate = 250\<close>, the node that serves five
  sessions closes: all five migrations have run when \<^verbatim>\<open>onDisconnect\<close> returns (five leaves
  sent, five rejoin callbacks queued, no session left in the player map), and the failover
  queue is empty.
\<close>

theorem failover_all_at_once:
  "(let w = five_sessions
    in failoverLimit w = 1 \<and> failoverRate w = 250 \<and> failoverQueue w = [] \<and>
       map fst (players w) = [''g1'', ''g2'', ''g3'', ''g4'', ''g5''] \<and>
       map (\<lambda>p. host (nodeObjs w (node (playerObjs w p)))) [0, 1, 2, 3, 4]
         = [''a'', ''a'', ''a'', ''a'', ''a''] \<and>
       nextTick w = [] \<and> timers w = []) \<and>
   (let w = first_node_fails
    in failoverQueue w = [] \<and> players w = [] \<and>
       nextTick w =
         [Rejoin 0 ''g1'' ''c1'' None False 2000, Rejoin 1 ''g2'' ''c2'' None False 2000,
          Rejoin 2 ''g3'' ''c3'' None False 2000, Rejoin 3 ''g4'' ''c4'' None False 2000,
          Rejoin 4 ''g5'' ''c5'' None False 2000] \<and>
       map vs_guild_id (gateway w)
         = [Some ''g1'', Some ''g2'', Some ''g3'', Some ''g4'', Some ''g5''] \<and>
       map vs_channel_id (gateway w) = [None, None, None, None, None] \<and>
       timers w =
         [(5, 250, CheckFailoverQueue), (6, 250, CheckFailoverQueue),
          (7, 250, CheckFailoverQueue), (8, 250, CheckFailoverQueue),
          (9, 250, CheckFailoverQueue)])"
  by (simp add: eval_defs cong: let_weak_cong)

section \<open>The session's command queue\<close>








section \<open>Joining a guild that has a session\<close>






section \<open>Migration\<close>

lemma upd_player_twice:
  "upd_player (upd_player w p f) p h = upd_player w p (\<lambda>pl. h (f pl))"
  by (simp add: upd_player_def)

lemma fold_removeListener:
  "fold (\<lambda>l w'. removeListener w' p ev l) ks w =
     upd_player w p
       (\<lambda>pl. pl\<lparr>listeners := (listeners pl)(ev := fold remove_last ks (listeners pl ev))\<rparr>)"
proof (induction ks arbitrary: w)
  case Nil
  show ?case by (simp add: upd_player_def)
next
  case (Cons k ks)
  have "fold (\<lambda>l w'. removeListener w' p ev l) (k # ks) w
          = fold (\<lambda>l w'. removeListener w' p ev l) ks (removeListener w p ev k)"
    by simp
  also have "\<dots> = upd_player (removeListener w p ev k) p
       (\<lambda>pl. pl\<lparr>listeners := (listeners pl)(ev := fold remove_last ks (listeners pl ev))\<rparr>)"
    by (rule Cons.IH)
  also have "\<dots> = upd_player w p
       (\<lambda>pl. pl\<lparr>listeners := (listeners pl)(ev := fold remove_last (k # ks) (listeners pl ev))\<rparr>)"
    by (simp add: removeListener_def upd_player_twice)
  finally show ?case .
qed

lemma fold_on:
  "fold (\<lambda>l w'. on w' p ev l) ls w =
     upd_player w p
       (\<lambda>pl. pl\<lparr>listeners := (listeners pl)(ev := listeners pl ev @ map (\<lambda>l. (l, False)) ls)\<rparr>)"
proof (induction ls arbitrary: w)
  case Nil
  show ?case by (simp add: upd_player_def)
next
  case (Cons l ls)
  have "fold (\<lambda>l w'. on w' p ev l) (l # ls) w = fold (\<lambda>l w'. on w' p ev l) ls (on w p ev l)"
    by simp
  also have "\<dots> = upd_player (on w p ev l) p
       (\<lambda>pl. pl\<lparr>listeners := (listeners pl)(ev := listeners pl ev @ map (\<lambda>l. (l, False)) ls)\<rparr>)"
    by (rule Cons.IH)
  also have "\<dots> = upd_player w p
       (\<lambda>pl. pl\<lparr>listeners :=
          (listeners pl)(ev := listeners pl ev @ map (\<lambda>l. (l, False)) (l # ls))\<rparr>)"
    by (simp add: on_def upd_player_twice)
  finally show ?case .
qed






subsection \<open>What the listeners of an emit leave alone\<close>














section \<open>The pending-join registry\<close>

lemma readyHandler_settles:
  assumes "pendingGuilds w g = Some pg" and "map_of (players w) g = Some p"
  shows "snd (readyHandler w h g) = None"
    and "pendingGuilds (fst (readyHandler w h g)) g = None"
    and "calls (fst (readyHandler w h g)) = calls w @ [(pg_promise pg, Resolved p)]"
    and "listeners (playerObjs (fst (readyHandler w h g)) p) EvDisconnect
           = remove_last (DisconnectHandler h g) (listeners (playerObjs w p) EvDisconnect)"
  using assms
  by (simp_all add: readyHandler_def res_def fulfil_def removeListener_def upd_player_def Let_def)

lemma disconnectHandler_settles:
  assumes "pendingGuilds w g = Some pg" and "map_of (players w) g = Some p"
  shows "snd (disconnectHandler w h g) = None"
    and "pendingGuilds (fst (disconnectHandler w h g)) g = None"
    and "calls (fst (disconnectHandler w h g)) = calls w @ [(pg_promise pg, Rejected DisconnectedError)]"
    and "listeners (playerObjs (fst (disconnectHandler w h g)) p) EvReady
           = remove_last (ReadyHandler h g) (listeners (playerObjs w p) EvReady)"
  using assms
  by (simp_all add: disconnectHandler_def rej_def fulfil_def removeListener_def upd_player_def
      Let_def)

lemma handler_without_entry:
  assumes "pendingGuilds w g = None"
  shows "calls (fst (readyHandler w h g)) = calls w"
    and "calls (fst (disconnectHandler w h g)) = calls w"
    and "pendingGuilds (fst (readyHandler w h g)) = pendingGuilds w"
    and "pendingGuilds (fst (disconnectHandler w h g)) = pendingGuilds w"
  using assms
  by (simp_all add: readyHandler_def disconnectHandler_def removeListener_def upd_player_def
      Let_def split: option.splits)

lemma joinTimeout_settles:
  "pendingGuilds (joinTimeout w g pr) g = None"
  "calls (joinTimeout w g pr) = calls w @ [(pr, Rejected VoiceConnectionTimeout)]"
  by (simp_all add: joinTimeout_def rej_def fulfil_def Let_def)

lemma settled_promise_keeps_first:
  "promises w pr = Some s \<Longrightarrow> promises (fulfil w pr s') = promises w"
  by (simp add: fulfil_def)

section \<open>Which sessions are migrated\<close>

lemma onDisconnect_selects:
  "onDisconnect w n =
     fold (\<lambda>p w'. queueFailover w' (SwitchNode p True))
       (filter (\<lambda>p. host (nodeObjs w (node (playerObjs w p))) = host (nodeObjs w n))
          (map snd (players w))) w"
  by (simp add: onDisconnect_def)

lemma shardReady_selects:
  assumes "k \<noteq> 0"
  shows "shardReady w k =
     fold (\<lambda>p w'. queueFailover w' (SwitchNode p False))
       (filter (\<lambda>p. shard_id (shard (playerObjs w p)) = Some k) (map snd (players w))) w"
proof -
  have "(shard_id (shard (playerObjs w p)) \<noteq> None \<and> shard_id (shard (playerObjs w p)) \<noteq> Some 0
          \<and> shard_id (shard (playerObjs w p)) = Some k)
        = (shard_id (shard (playerObjs w p)) = Some k)" for p
    using assms by auto
  then show ?thesis by (simp add: shardReady_def)
qed

lemma shardReady_zero: "shardReady w 0 = w"
proof -
  have "filter (\<lambda>p. shard_id (shard (playerObjs w p)) \<noteq> None
                     \<and> shard_id (shard (playerObjs w p)) \<noteq> Some 0
                     \<and> shard_id (shard (playerObjs w p)) = Some 0) ps = []" for ps
    by (induction ps) auto
  then show ?thesis by (simp add: shardReady_def)
qed

lemma queueFailover_runs_at_once:
  "failoverQueue w = [] \<Longrightarrow> queueFailover w fn = processQueue w fn"
  "failoverQueue w = [] \<Longrightarrow> failoverQueue (queueFailover w fn) = []"
  by (cases fn; simp add: queueFailover_def processQueue_def run_thunk_def setTimeout_def
      switchNode_def fold_removeListener once_def updateVoiceState_def upd_player_def Let_def)+

section \<open>Queues that never fill, a flag that is never set\<close>

lemma socket_ok_fields:
  "socket_ok (n\<lparr>wire := x\<rparr>) = socket_ok n" "socket_ok (n\<lparr>cpu := c\<rparr>) = socket_ok n"
  "socket_ok (n\<lparr>draining := b\<rparr>) = socket_ok n"
  by (simp_all add: socket_ok_def)

lemma quiet_session:
  assumes "quiet w"
  shows "quiet (node_send w i d)" "quiet (sendEvent w p d)" "quiet (queueEvent w p d)"
    "quiet (checkEventQueue w p)" "quiet (setPause w p b)" "quiet (pause w p)"
    "quiet (resume w p)" "quiet (seek w p x)" "quiet (setVolume w p v)" "quiet (stop w p)"
    "quiet (private_disconnect w p)" "quiet (updateVoiceState w p c m d')"
    "quiet (switchChannel w p ch r)" "quiet (stateUpdate w p s)"
    "quiet (on w p ev l)" "quiet (once w p ev l)" "quiet (removeListener w p ev l)"
    "quiet (remove_once w p ev l)"
  using assms
  by (simp_all add: quiet_def socket_ok_fields session_defs stateUpdate_def on_def once_def removeListener_def
      remove_once_def Let_def)

lemma quiet_promises:
  assumes "quiet w"
  shows "quiet (fulfil w pr s)" "quiet (res w pr q)" "quiet (rej w pr e)"
    "quiet (then_catch w pr r)"
  using assms by (simp_all add: quiet_def socket_ok_fields fulfil_def res_def rej_def then_catch_def Let_def)

lemma quiet_handlers:
  assumes "quiet w"
  shows "quiet (fst (readyHandler w h g))" "quiet (fst (disconnectHandler w h g))"
  using assms
  by (simp_all add: quiet_def socket_ok_fields readyHandler_def disconnectHandler_def res_def rej_def fulfil_def
      removeListener_def upd_player_def Let_def split: option.splits)

lemma quiet_fold_on: "quiet w \<Longrightarrow> quiet (fold (\<lambda>l w'. on w' p ev l) ls w)"
  by (simp add: fold_on quiet_def socket_ok_fields upd_player_def)

lemma quiet_call_listener: "quiet w \<Longrightarrow> quiet (fst (call_listener w p ev l))"
  by (cases l) (simp_all add: quiet_handlers quiet_fold_on, simp add: quiet_def socket_ok_fields)

lemma quiet_run_listeners: "quiet w \<Longrightarrow> quiet (fst (run_listeners w p ev rs))"
proof (induction rs arbitrary: w)
  case Nil
  then show ?case by simp
next
  case (Cons r rs)
  define w1 where "w1 = (if snd r then remove_once w p ev (fst r) else w)"
  have w1: "quiet w1" using Cons.prems by (simp add: w1_def quiet_session)
  obtain w2 e where c: "call_listener w1 p ev (fst r) = (w2, e)" by fastforce
  from quiet_call_listener [OF w1, of p ev "fst r"] c have w2: "quiet w2" by simp
  show ?case
    using c w2 Cons.IH [OF w2] by (cases e) (simp_all add: w1_def [symmetric])
qed

lemma quiet_emit: "quiet w \<Longrightarrow> quiet (fst (emit w p ev))"
proof -
  assume "quiet w"
  then have "quiet (w\<lparr>emitted := emitted w @ [(p, ev)]\<rparr>)" by (simp add: quiet_def socket_ok_fields)
  then show ?thesis unfolding emit_def by (simp add: quiet_run_listeners)
qed

lemma quiet_connect: "quiet w \<Longrightarrow> quiet (fst (connect w p g s ev))"
proof -
  assume q: "quiet w"
  obtain w1 e where c: "emit w p EvConnect = (w1, e)" by fastforce
  from quiet_emit [OF q, of p EvConnect] c have "quiet w1" by simp
  then have "quiet (queueEvent w1 p (VoiceUpdateOp g s ev))" by (rule quiet_session)
  then have "quiet ((queueEvent w1 p (VoiceUpdateOp g s ev))
      \<lparr>nextTick := nextTick (queueEvent w1 p (VoiceUpdateOp g s ev)) @ [EmitReady p]\<rparr>)"
    by (simp add: quiet_def socket_ok_fields)
  with c \<open>quiet w1\<close> show ?thesis by (cases e) (simp_all add: connect_def Let_def)
qed

lemma quiet_disconnect: "quiet w \<Longrightarrow> quiet (fst (disconnect w p))"
  by (simp add: disconnect_def quiet_emit quiet_session)

lemma quiet_onTrackEnd: "quiet w \<Longrightarrow> quiet (fst (onTrackEnd w p reason))"
proof -
  assume q: "quiet w"
  then have "quiet (upd_player w p (\<lambda>pl. pl\<lparr>playing := False, lastTrack := track pl, track := None\<rparr>))"
    by (simp add: quiet_def socket_ok_fields upd_player_def)
  with q show ?thesis by (simp add: onTrackEnd_def Let_def quiet_emit)
qed

lemma quiet_switchNode: "quiet w \<Longrightarrow> quiet (switchNode w p lv)"
  by (simp add: switchNode_def fold_removeListener once_def updateVoiceState_def upd_player_def
      quiet_def socket_ok_fields Let_def)

lemma quiet_play: "quiet w \<Longrightarrow> quiet (play w p trk opts)"
  by (simp add: play_def switchNode_def fold_removeListener once_def updateVoiceState_def
      session_defs quiet_def socket_ok_fields Let_def)

lemma quiet_issue: "quiet w \<Longrightarrow> quiet (issue w p c)"
  by (cases c) (simp_all add: quiet_session quiet_play)

lemma quiet_timers:
  "quiet (fst (setTimeout w a d)) = quiet w" "quiet (clearTimeout w h) = quiet w"
  by (simp_all add: quiet_def socket_ok_fields setTimeout_def clearTimeout_def Let_def)

lemma quiet_joinCont: "quiet w \<Longrightarrow> quiet (joinCont w g c opts pl nd pr)"
  by (cases nd) (simp_all add: joinCont_def quiet_promises, simp add: quiet_def socket_ok_fields setTimeout_def Let_def)

lemma quiet_joinTimeout: "quiet w \<Longrightarrow> quiet (joinTimeout w g pr)"
proof -
  assume "quiet w"
  then have "quiet (w\<lparr>pendingGuilds := (pendingGuilds w)(g := None)\<rparr>)" by (simp add: quiet_def socket_ok_fields)
  then show ?thesis unfolding joinTimeout_def by (rule quiet_promises)
qed

lemma quiet_join: "quiet w \<Longrightarrow> quiet (fst (join w g c opts pl))"
proof -
  assume q: "quiet w"
  define w0 where "w0 = w\<lparr>nextPromise := Suc (nextPromise w)\<rparr>"
  have w0: "quiet w0" using q by (simp add: w0_def quiet_def socket_ok_fields)
  have a: "quiet (fulfil (switchChannel w0 q' c False) pr s)" for q' pr s
    by (simp add: quiet_promises quiet_session w0)
  have b: "quiet (fulfil w0 pr s)" for pr s by (simp add: quiet_promises w0)
  have c: "quiet (joinCont w0 g c o' p' n' pr)" for o' p' n' pr by (simp add: quiet_joinCont w0)
  have d: "quiet (w0\<lparr>microtasks := ms\<rparr>)" for ms using w0 by (simp add: quiet_def socket_ok_fields)
  show ?thesis
    unfolding join_def Let_def w0_def [symmetric]
    by (simp add: a b c d split: option.splits)
qed


lemma quiet_vsu_connect: "quiet w \<Longrightarrow> quiet (fst (voiceServerUpdate_connect w data p))"
proof -
  assume q: "quiet w"
  have del: "quiet (w\<lparr>pendingGuilds := m\<rparr>)" for m using q by (simp add: quiet_def socket_ok_fields)
  obtain w1 e where c: "connect w p (guild_id data) (session_id data)
      (endpoint data, guild_id data, token data) = (w1, e)" by fastforce
  from quiet_connect [OF q, of p "guild_id data" "session_id data"
      "(endpoint data, guild_id data, token data)"] c
  have w1: "quiet w1" by simp
  have "quiet (once (once (w1\<lparr>nextHandler := Suc (nextHandler w1)\<rparr>) p EvReady l1) p EvDisconnect l2)"
    for l1 l2
    using w1 by (simp add: quiet_def socket_ok_fields once_def upd_player_def)
  with q del c w1 show ?thesis
    by (cases e) (simp_all add: voiceServerUpdate_connect_def Let_def)
qed

lemma quiet_voiceServerUpdate: "quiet w \<Longrightarrow> quiet (fst (voiceServerUpdate w data))"
  apply (simp add: voiceServerUpdate_def Let_def split: option.splits)
  apply (intro conjI impI allI quiet_vsu_connect)
  apply (simp_all add: quiet_def socket_ok_fields clearTimeout_def upd_player_def Player_new_def)
  done

lemma quiet_processQueue: "quiet w \<Longrightarrow> quiet (processQueue w fn)"
  by (cases fn) (simp add: processQueue_def run_thunk_def quiet_timers quiet_switchNode Let_def)

lemma quiet_queueFailover: "quiet w \<Longrightarrow> quiet (queueFailover w fn)"
  by (simp add: queueFailover_def quiet_processQueue) (simp add: quiet_def socket_ok_fields)

lemma quiet_fold_queueFailover:
  "quiet w \<Longrightarrow> quiet (fold (\<lambda>p w'. queueFailover w' (SwitchNode p lv)) ps w)"
  by (induction ps arbitrary: w) (simp_all add: quiet_queueFailover)

lemma quiet_checkFailoverQueue: "quiet w \<Longrightarrow> checkFailoverQueue w = w"
  by (simp add: checkFailoverQueue_def quiet_def socket_ok_fields)

lemma quiet_manager:
  assumes "quiet w"
  shows "quiet (onDisconnect w n)" "quiet (shardReady w k)" "quiet (leave w g)"
proof -
  show "quiet (onDisconnect w n)" "quiet (shardReady w k)"
    using assms by (simp_all add: onDisconnect_def shardReady_def Let_def quiet_fold_queueFailover)
  show "quiet (leave w g)"
  proof (cases "map_of (players w) g")
    case None
    with assms show ?thesis by (simp add: leave_def)
  next
    case (Some p)
    from quiet_session(11) [OF assms, of p]
    have "quiet ((private_disconnect w p)\<lparr>players := ps\<rparr>)" for ps by (simp add: quiet_def socket_ok_fields)
    with Some show ?thesis by (simp add: leave_def Let_def)
  qed
qed

lemma quiet_note_uncaught: "quiet (fst r) \<Longrightarrow> quiet (note_uncaught r)"
  by (cases r) (auto simp: note_uncaught_def quiet_def socket_ok_fields split: option.splits)

lemma quiet_migrated: "quiet w \<Longrightarrow> quiet (fst (migrated w q g trk psd pos))"
proof -
  assume q: "quiet w"
  define w2 where "w2 = play (if psd then pause w q else w) q trk (Some [(''startTime'', pos)])"
  have w2: "quiet w2" using q by (simp add: w2_def quiet_play quiet_session)
  obtain w3 e where c: "emit w2 q EvReconnect = (w3, e)" by fastforce
  from quiet_emit [OF w2, of q EvReconnect] c have w3: "quiet w3" by simp
  then have "quiet (w3\<lparr>players := ps\<rparr>)" for ps by (simp add: quiet_def socket_ok_fields)
  with c w3 show ?thesis
    by (cases e) (simp_all add: migrated_def Let_def w2_def [symmetric])
qed

lemma quiet_run_task: "quiet w \<Longrightarrow> quiet (fst (run_task w t))"
proof (cases t)
  case (CheckEventQueue p)
  assume "quiet w" then show ?thesis by (simp add: CheckEventQueue run_task_def quiet_session)
next
  case (EmitReady p)
  assume "quiet w" then show ?thesis by (simp add: EmitReady run_task_def quiet_emit)
next
  case (Rejoin p g c trk psd pos)
  assume q: "quiet w"
  obtain w1 pr where j: "join w g c None (Some p) = (w1, pr)" by fastforce
  from quiet_join [OF q, of g c None "Some p"] j have "quiet w1" by simp
  then have "quiet (then_catch w1 pr r)" for r by (rule quiet_promises)
  with j show ?thesis by (simp add: Rejoin run_task_def)
qed

lemma quiet_run_job: "quiet w \<Longrightarrow> quiet (fst (run_job w j))"
proof (cases j)
  case (JoinCont g c opts pl nd pr)
  assume "quiet w" then show ?thesis by (simp add: JoinCont run_job_def quiet_joinCont)
next
  case (React pr)
  assume q: "quiet w"
  show ?thesis
  proof (cases "reactions w pr")
    case None
    with q show ?thesis by (simp add: React run_job_def)
  next
    case (Some r)
    obtain p g trk psd pos where r: "r = Migrated p g trk psd pos" by (cases r)
    show ?thesis
    proof (cases "promises w pr")
      case None
      with q Some r show ?thesis by (simp add: React run_job_def)
    next
      case (Some s)
      show ?thesis
      proof (cases s)
        case (Rejected e)
        with q \<open>reactions w pr = Some r\<close> r Some show ?thesis
          by (simp add: React run_job_def quiet_disconnect)
      next
        case (Resolved q')
        obtain w1 e where m: "migrated w q' g trk psd pos = (w1, e)" by fastforce
        from quiet_migrated [OF q, of q' g trk psd pos] m have "quiet w1" by simp
        with m \<open>reactions w pr = Some r\<close> r Some Resolved show ?thesis
          by (cases e) (simp_all add: React run_job_def quiet_disconnect)
      qed
    qed
  qed
qed

lemma quiet_step: "quiet w \<Longrightarrow> quiet (step w)"
proof -
  assume q: "quiet w"
  have t: "quiet (note_uncaught (run_task (w\<lparr>phase := ph, nextTick := ts\<rparr>) t))" for ph ts t
    using q by (intro quiet_note_uncaught quiet_run_task) (simp add: quiet_def socket_ok_fields)
  have t': "quiet (note_uncaught (run_task (w\<lparr>nextTick := ts\<rparr>) t))" for ts t
    using q by (intro quiet_note_uncaught quiet_run_task) (simp add: quiet_def socket_ok_fields)
  have j: "quiet (note_uncaught (run_job (w\<lparr>phase := ph, microtasks := js\<rparr>) j))" for ph js j
    using q by (intro quiet_note_uncaught quiet_run_job) (simp add: quiet_def socket_ok_fields)
  have j': "quiet (note_uncaught (run_job (w\<lparr>microtasks := js\<rparr>) j))" for js j
    using q by (intro quiet_note_uncaught quiet_run_job) (simp add: quiet_def socket_ok_fields)
  have p: "quiet (w\<lparr>phase := ph\<rparr>)" for ph using q by (simp add: quiet_def socket_ok_fields)
  show ?thesis
    unfolding step_def
    by (simp add: q t t' j j' p split: phase.splits list.splits)
qed

lemma quiet_steps: "quiet w \<Longrightarrow> quiet (steps k w)"
  by (induction k arbitrary: w) (simp_all add: quiet_step)

lemma quiet_fire: "quiet w \<Longrightarrow> quiet (fire w h)"
proof -
  assume q: "quiet w"
  have w1: "quiet (w\<lparr>timers := ts\<rparr>)" for ts using q by (simp add: quiet_def socket_ok_fields)
  show ?thesis
    unfolding fire_def Let_def
    by (simp add: q quiet_joinTimeout [OF w1] quiet_checkFailoverQueue [OF w1] w1
        split: option.splits prod.splits timer_action.splits)
qed

lemma quiet_createNode: "quiet w \<Longrightarrow> quiet (createNode w opts)"
  by (simp add: createNode_def quiet_def socket_ok_fields socket_ok_node Let_def)

lemma quiet_new: "quiet (PlayerManager_new ns opts)"
proof -
  have f: "quiet w \<Longrightarrow> quiet (fold (\<lambda>n w'. createNode w' n) ns w)" for w
    by (induction ns arbitrary: w) (simp_all add: quiet_createNode)
  show ?thesis
    unfolding PlayerManager_new_def
    by (rule f) (simp add: quiet_def socket_ok_node Player_new_def)
qed

lemma quiet_upd_node:
  "quiet w \<Longrightarrow> socket_ok (f (nodeObjs w i)) \<Longrightarrow> quiet (upd_node w i f)"
  by (simp add: quiet_def upd_node_def)

lemma quiet_node_events:
  assumes "quiet w"
  shows "quiet (node_open w i)" "quiet (node_close w i)" "quiet (node_stats w i l c)"
    "quiet (upd_node w i reconnect)" "quiet (upd_node w i (\<lambda>n. n\<lparr>draining := True\<rparr>))"
proof -
  from assms have s: "socket_ok (nodeObjs w i)" by (simp add: quiet_def)
  show "quiet (node_open w i)"
    using assms by (simp add: node_open_def quiet_upd_node socket_ok_node)
  have "quiet (upd_node w i disconnected)"
    using assms by (simp add: quiet_upd_node socket_ok_node)
  then show "quiet (node_close w i)"
    by (simp add: node_close_def Let_def quiet_manager)
  show "quiet (node_stats w i l c)"
    using assms s by (simp add: node_stats_def quiet_upd_node socket_ok_fields)
  show "quiet (upd_node w i reconnect)"
    using assms by (simp add: quiet_upd_node socket_ok_node)
  show "quiet (upd_node w i (\<lambda>n. n\<lparr>draining := True\<rparr>))"
    using assms s by (simp add: quiet_upd_node socket_ok_fields)
qed

lemma reachable_quiet: "reachable w \<Longrightarrow> quiet w"
proof (induction rule: reachable.induct)
  case (r_new ns options)
  show ?case by (rule quiet_new)
next
  case (r_trackEnd w p reason)
  then show ?case by (simp add: quiet_note_uncaught quiet_onTrackEnd)
next
  case (r_assignment w data)
  then show ?case by (simp add: quiet_note_uncaught quiet_voiceServerUpdate)
next
  case (r_disconnect w p)
  then show ?case by (simp add: quiet_note_uncaught quiet_disconnect)
qed (simp_all add: quiet_createNode quiet_node_events quiet_manager quiet_join quiet_step
      quiet_fire quiet_issue quiet_session)

text \<open>
  In every reachable state the failover queue is empty, the send queue of every session
  is empty, and the \<^verbatim>\<open>ready\<close> flag of every session is false.
\<close>

lemma reachable_nothing_waits:
  "reachable w \<Longrightarrow>
     failoverQueue w = [] \<and> sendQueue (playerObjs w p) = [] \<and> \<not> ready (playerObjs w p)"
  using reachable_quiet [of w] by (simp add: quiet_def)

text \<open>In every reachable state a connected node has its socket.\<close>

lemma reachable_sockets:
  "reachable w \<Longrightarrow> list_all (\<lambda>k. socket_ok (nodeObjs w k)) (map snd (nodes w))"
  using reachable_quiet [of w] by (simp add: quiet_def list_all_iff)

lemma reachable_steps: "reachable w \<Longrightarrow> reachable (steps k w)"
  by (induction k arbitrary: w) (simp_all add: r_step)

lemma reachable_play: "reachable w \<Longrightarrow> reachable (play w p trk opts)"
  using r_issue [of w p "PlayC trk opts"] by simp

lemma reachable_examples:
  "reachable scenario_A" "reachable (note_uncaught scenario_no_channel)"
  "reachable five_sessions" "reachable first_node_fails" "reachable migration_done"
  "reachable session_on_shard0"
  unfolding scenario_A_def scenario_no_channel_def five_sessions_def first_node_fails_def
    migration_done_def assignment_seen_def outage_def playing_T_def session_on_shard0_def
    establish_def assignment_arrives_def join_call_def one_node_def two_nodes_def
  by (intro reachable_steps reachable_play reachable.intros)+


end
